theory Spec2Isabelle
  imports Main "HOL-Library.Char_ord" "HOL-Library.List_Lexorder"
begin

section \<open>The chat widget of \<^verbatim>\<open>SerayahChat.tsx\<close>: data model\<close>

text \<open>
  The component keeps its state in React state cells (\<^verbatim>\<open>useState\<close>) and in mutable
  references (\<^verbatim>\<open>useRef\<close>). Both are fields of one record here, and every handler of
  the component is a function from that record to the updated record.

  Values a handler reads from its enclosing render (the arguments of \<^verbatim>\<open>useCallback\<close>
  dependencies: \<^verbatim>\<open>connectionState\<close>, \<^verbatim>\<open>isOpen\<close>, \<^verbatim>\<open>reconnectAttempt\<close>,
  \<^verbatim>\<open>useHttpFallback\<close>) are passed as an explicit \<open>render\<close> record, because a handler
  installed on a socket keeps the values of the render that created it. Reads through a
  reference (\<^verbatim>\<open>wsRef.current\<close>, \<^verbatim>\<open>pendingMessageRef.current\<close>, ...) and functional
  state updates (\<^verbatim>\<open>setX(prev => ...)\<close>) use the current record.

  What the JavaScript runtime and the network decide is an argument of the handler:
  the clock reading of \<^verbatim>\<open>Date.now()\<close>, the outcome of a \<^verbatim>\<open>fetch\<close>, the result of
  \<^verbatim>\<open>JSON.parse\<close>, \<^verbatim>\<open>JSON.stringify\<close> and \<^verbatim>\<open>String.prototype.trim\<close>.
\<close>

datatype role = User | Assistant | System

text \<open>\<^verbatim>\<open>new Date()\<close> at a clock reading, or \<^verbatim>\<open>new Date(text)\<close>.\<close>

datatype date = DateNow nat | DateOf string

record SerayahMessage =
  m_id :: string
  m_role :: role
  m_content :: string
  m_timestamp :: date

text \<open>
  A decoded JSON value. Numbers are restricted to integers; a missing property
  (\<^verbatim>\<open>undefined\<close>) is \<open>None\<close> of \<open>json option\<close>. In an object literal a repeated key
  takes its last value, as \<^verbatim>\<open>JSON.parse\<close> does.
\<close>

datatype json =
    JNull
  | JBool bool
  | JNum int
  | JStr string
  | JArr "json list"
  | JObj "(string \<times> json) list"

datatype status = Online | Offline | Busy | Working

record SerayahStatus =
  status :: status
  currentTask :: "json option"
  lastSeen :: "date option"

datatype ConnectionState = Connecting | Connected | Disconnected | Reconnecting | PollMode

datatype readyState = CONNECTING | OPEN | CLOSING | CLOSED

text \<open>The values a callback closes over: the state cells of the render that made it.\<close>

record render =
  r_connectionState :: ConnectionState
  r_isOpen :: bool
  r_reconnectAttempt :: nat
  r_useHttpFallback :: bool

text \<open>A socket: its ready state and the render its handlers were created in.\<close>

record sock =
  readyState :: readyState
  captured :: render

text \<open>Frames the widget writes to the socket with \<^verbatim>\<open>ws.send\<close>.\<close>

datatype frame = ConnectFrame | MessageFrame string

text \<open>
  The outcome of a \<^verbatim>\<open>fetch\<close>: it threw (network failure, timeout, a body that is not
  JSON), or it answered with \<^verbatim>\<open>response.ok\<close> and a body.
\<close>

datatype 'a fetched = Threw | Response bool 'a

text \<open>An item of \<^verbatim>\<open>GET /api/v1/messages\<close>; an absent \<^verbatim>\<open>id\<close> is the empty string.\<close>

record item =
  i_id :: string
  i_content :: string
  i_role :: string
  i_created_at :: string

text \<open>An entry of \<^verbatim>\<open>GET /api/v1/agents\<close>.\<close>

record agent =
  a_name :: "string option"
  a_is_gateway_main :: bool
  a_status :: string
  a_current_task :: "json option"
  a_last_seen_at :: string

text \<open>The two environment variables.\<close>

record config =
  GATEWAY_WS_URL :: string
  MC_API_URL :: string

text \<open>
  The state of the mounted component. The last five fields record effects on the
  outside world so that they can be observed: frames written to the socket, the delays
  handed to \<^verbatim>\<open>setTimeout\<close> by \<^verbatim>\<open>ws.onclose\<close>, the number of liveness probes whose
  answer is still awaited by \<^verbatim>\<open>startHttpFallback\<close>, the contents POSTed, and the lines
  written with \<^verbatim>\<open>console.error\<close> or \<^verbatim>\<open>console.warn\<close>.
\<close>

record chat =
  isOpen :: bool
  messages :: "SerayahMessage list"
  connectionState :: ConnectionState
  serayahStatus :: SerayahStatus
  reconnectAttempt :: nat
  useHttpFallback :: bool
  wsRef :: "sock option"
  reconnectTimeoutRef :: "(nat \<times> render) option"
  pollIntervalRef :: bool
  messagePollIntervalRef :: bool
  pendingMessageRef :: "string option"
  lastMessageIdRef :: string
  wsSent :: "frame list"
  timeoutsSet :: "nat list"
  healthChecks :: nat
  httpPosts :: "string list"
  console :: "string list"

definition POLL_INTERVAL :: nat where
  "POLL_INTERVAL = 10000"

definition MESSAGE_POLL_INTERVAL :: nat where
  "MESSAGE_POLL_INTERVAL = 5000"

definition MAX_WS_RECONNECT_ATTEMPTS :: nat where
  "MAX_WS_RECONNECT_ATTEMPTS = 3"

text \<open>The state after mounting: the initial values of the state cells and references.\<close>

definition initial :: chat where
  "initial = \<lparr> isOpen = False, messages = [], connectionState = Disconnected,
     serayahStatus = \<lparr> status = Offline, currentTask = None, lastSeen = None \<rparr>,
     reconnectAttempt = 0, useHttpFallback = False, wsRef = None,
     reconnectTimeoutRef = None, pollIntervalRef = False, messagePollIntervalRef = False,
     pendingMessageRef = None, lastMessageIdRef = ''0'',
     wsSent = [], timeoutsSet = [], healthChecks = 0, httpPosts = [], console = [] \<rparr>"

text \<open>The render of the current state: what a freshly created callback closes over.\<close>

definition snapshot :: "chat \<Rightarrow> render" where
  "snapshot s = \<lparr> r_connectionState = connectionState s, r_isOpen = isOpen s,
     r_reconnectAttempt = reconnectAttempt s, r_useHttpFallback = useHttpFallback s \<rparr>"

section \<open>Status normalisation\<close>

text \<open>
  \<^verbatim>\<open>mapAgentStatus\<close>: a \<^verbatim>\<open>switch\<close> over the raw status string, with a default.
\<close>

definition mapAgentStatus :: "string \<Rightarrow> status" where
  "mapAgentStatus s =
     (if s = ''online'' \<or> s = ''active'' then Online
      else if s = ''working'' \<or> s = ''busy'' then Busy
      else if s = ''offline'' \<or> s = ''provisioning'' then Offline
      else Offline)"

section \<open>JavaScript values\<close>

text \<open>\<^verbatim>\<open>n.toString()\<close> of a non-negative integer: its decimal digits.\<close>

definition digit :: "nat \<Rightarrow> char" where
  "digit n = ''0123456789'' ! (n mod 10)"

fun toString :: "nat \<Rightarrow> string" where
  "toString n = (if n < 10 then [digit n] else toString (n div 10) @ [digit n])"

declare toString.simps [simp del]

text \<open>Truthiness of a value that may be \<^verbatim>\<open>undefined\<close>.\<close>

fun truthy :: "json option \<Rightarrow> bool" where
  "truthy None = False"
| "truthy (Some JNull) = False"
| "truthy (Some (JBool b)) = b"
| "truthy (Some (JNum n)) = (n \<noteq> 0)"
| "truthy (Some (JStr t)) = (t \<noteq> [])"
| "truthy (Some (JArr xs)) = True"
| "truthy (Some (JObj kvs)) = True"

text \<open>
  Reading a property, as \<^verbatim>\<open>v?.k\<close> does: \<^verbatim>\<open>undefined\<close> on \<^verbatim>\<open>undefined\<close> and
  \<^verbatim>\<open>null\<close>. None of the keys the component reads (\<^verbatim>\<open>type\<close>, \<^verbatim>\<open>event\<close>,
  \<^verbatim>\<open>payload\<close>, \<^verbatim>\<open>message\<close>, \<^verbatim>\<open>agent\<close>, \<^verbatim>\<open>status\<close>, \<^verbatim>\<open>current_task\<close>,
  \<^verbatim>\<open>content\<close>, \<^verbatim>\<open>result\<close>) is a property of a string, a number, a boolean or an
  array, so only objects have them.
\<close>

fun getprop :: "json option \<Rightarrow> string \<Rightarrow> json option" where
  "getprop (Some (JObj kvs)) k = map_of (rev kvs) k"
| "getprop v k = None"

text \<open>\<^verbatim>\<open>typeof data === "object" && data !== null\<close>: objects and arrays.\<close>

fun is_object :: "json \<Rightarrow> bool" where
  "is_object (JObj kvs) = True"
| "is_object (JArr xs) = True"
| "is_object v = False"

fun join_comma :: "string list \<Rightarrow> string" where
  "join_comma [] = []"
| "join_comma [x] = x"
| "join_comma (x # y # zs) = x @ '','' @ join_comma (y # zs)"

text \<open>\<^verbatim>\<open>String(v)\<close>; an array joins its elements with commas, \<^verbatim>\<open>null\<close> as nothing.\<close>

fun String_js :: "json \<Rightarrow> string" where
  "String_js JNull = ''null''"
| "String_js (JBool b) = (if b then ''true'' else ''false'')"
| "String_js (JNum n) = (if n < 0 then CHR ''-'' # toString (nat (- n)) else toString (nat n))"
| "String_js (JStr t) = t"
| "String_js (JArr xs) = join_comma (map (\<lambda>x. if x = JNull then [] else String_js x) xs)"
| "String_js (JObj kvs) = ''[object Object]''"

definition String_of :: "json option \<Rightarrow> string" where
  "String_of v = (case v of None \<Rightarrow> ''undefined'' | Some j \<Rightarrow> String_js j)"

text \<open>\<^verbatim>\<open>t.toLowerCase()\<close> on the ASCII letters, and \<^verbatim>\<open>t.includes(u)\<close>.\<close>

definition toLowerCase :: "string \<Rightarrow> string" where
  "toLowerCase t =
     map (\<lambda>c. case map_of (zip ''ABCDEFGHIJKLMNOPQRSTUVWXYZ'' ''abcdefghijklmnopqrstuvwxyz'') c of
                 Some d \<Rightarrow> d | None \<Rightarrow> c) t"

fun includes_str :: "string \<Rightarrow> string \<Rightarrow> bool" where
  "includes_str [] u = (u = [])"
| "includes_str (c # cs) u = (take (length u) (c # cs) = u \<or> includes_str cs u)"

section \<open>The transcript\<close>

definition appendMessage :: "SerayahMessage \<Rightarrow> chat \<Rightarrow> chat" where
  "appendMessage m s = s\<lparr> messages := messages s @ [m] \<rparr>"

text \<open>A message made on the spot: its id is the clock reading, in decimal.\<close>

definition localMessage :: "nat \<Rightarrow> nat \<Rightarrow> role \<Rightarrow> string \<Rightarrow> SerayahMessage" where
  "localMessage idn now ro c =
     \<lparr> m_id = toString idn, m_role = ro, m_content = c, m_timestamp = DateNow now \<rparr>"

text \<open>
  The two notices \<^verbatim>\<open>sendMessage\<close> writes into the transcript (each starts with a
  pictograph in the source, left out here).
\<close>

definition failure_notice :: string where
  "failure_notice = ''Failed to send message. Service may be temporarily unavailable.''"

definition connecting_notice :: string where
  "connecting_notice = ''Connecting to Serayah...''"

section \<open>Fallback transport\<close>

text \<open>\<^verbatim>\<open>checkHealth\<close>: false without an API base, false when the request throws.\<close>

definition checkHealth :: "config \<Rightarrow> unit fetched \<Rightarrow> bool" where
  "checkHealth cfg probe =
     (if MC_API_URL cfg = [] then False
      else (case probe of Threw \<Rightarrow> False | Response ok u \<Rightarrow> ok))"

text \<open>
  \<^verbatim>\<open>fetchSerayahStatus\<close>, given what the request returned: the first agent whose
  lower-cased name contains \<^verbatim>\<open>serayah\<close>, or that is the gateway's main agent.
\<close>

definition is_serayah :: "agent \<Rightarrow> bool" where
  "is_serayah a =
     ((case a_name a of None \<Rightarrow> False | Some n \<Rightarrow> includes_str (toLowerCase n) ''serayah'')
      \<or> a_is_gateway_main a)"

definition fetchSerayahStatus :: "config \<Rightarrow> agent list fetched \<Rightarrow> chat \<Rightarrow> chat" where
  "fetchSerayahStatus cfg res s =
     (if MC_API_URL cfg = [] then s
      else (case res of
        Threw \<Rightarrow> s\<lparr> console := console s @ [''Failed to fetch Serayah status:''] \<rparr>
      | Response ok agents \<Rightarrow>
          (if ok then
             (case find is_serayah agents of
                None \<Rightarrow> s
              | Some a \<Rightarrow>
                  s\<lparr> serayahStatus :=
                      \<lparr> status = mapAgentStatus (a_status a),
                        currentTask = a_current_task a,
                        lastSeen = (if a_last_seen_at a \<noteq> [] then Some (DateOf (a_last_seen_at a))
                                    else None) \<rparr> \<rparr>)
           else s)))"

text \<open>
  \<^verbatim>\<open>pollMessages\<close>, given what the request returned. The watermark is set from the
  last item of a non-empty batch; then every item is offered to the transcript in turn
  (\<^verbatim>\<open>forEach\<close> with a functional \<^verbatim>\<open>setMessages\<close>, so each one sees the ones before).
  \<open>dedupAppend\<close> is the function handed to \<^verbatim>\<open>setMessages\<close>.
\<close>

definition assistantMessage :: "item \<Rightarrow> SerayahMessage" where
  "assistantMessage msg =
     \<lparr> m_id = i_id msg, m_role = Assistant, m_content = i_content msg,
       m_timestamp = DateOf (i_created_at msg) \<rparr>"

definition dedupAppend :: "SerayahMessage \<Rightarrow> SerayahMessage list \<Rightarrow> SerayahMessage list" where
  "dedupAppend m prev = (if list_ex (\<lambda>p. m_id p = m_id m) prev then prev else prev @ [m])"

definition addPolled :: "chat \<Rightarrow> item \<Rightarrow> chat" where
  "addPolled s msg =
     (if i_role msg = ''assistant''
      then s\<lparr> messages := dedupAppend (assistantMessage msg) (messages s) \<rparr>
      else s)"

definition pollMessages :: "render \<Rightarrow> config \<Rightarrow> item list fetched \<Rightarrow> chat \<Rightarrow> chat" where
  "pollMessages r cfg res s =
     (if MC_API_URL cfg = [] \<or> \<not> r_isOpen r then s
      else (case res of
        Threw \<Rightarrow> s\<lparr> console := console s @ [''Failed to poll messages:''] \<rparr>
      | Response ok newMessages \<Rightarrow>
          (if ok then
             (if newMessages \<noteq> [] then
                foldl addPolled
                  (s\<lparr> lastMessageIdRef :=
                       (if i_id (last newMessages) \<noteq> [] then i_id (last newMessages)
                        else lastMessageIdRef s) \<rparr>)
                  newMessages
              else s)
           else s)))"

text \<open>\<^verbatim>\<open>sendMessageViaHttp\<close>: whether the POST was accepted, and the state after it.\<close>

definition sendMessageViaHttp :: "config \<Rightarrow> string \<Rightarrow> unit fetched \<Rightarrow> chat \<Rightarrow> bool \<times> chat" where
  "sendMessageViaHttp cfg content post s =
     (if MC_API_URL cfg = [] then (False, s)
      else (case post of
        Threw \<Rightarrow> (False, s\<lparr> httpPosts := httpPosts s @ [content],
                             console := console s @ [''Failed to send message via HTTP:''] \<rparr>)
      | Response ok u \<Rightarrow> (ok, s\<lparr> httpPosts := httpPosts s @ [content] \<rparr>)))"

text \<open>
  \<^verbatim>\<open>startHttpFallback\<close> is asynchronous. Up to its \<^verbatim>\<open>await checkHealth()\<close> it only
  tests the captured \<^verbatim>\<open>useHttpFallback\<close>; \<open>healthChecks\<close> counts the calls suspended
  there. \<open>startHttpFallback_resume\<close> is the rest, run when the probe has answered. The
  first requests it issues (\<^verbatim>\<open>fetchSerayahStatus()\<close>, \<^verbatim>\<open>pollMessages()\<close>) change the
  state only when they return, through the two functions above.
\<close>

definition startHttpFallback :: "render \<Rightarrow> chat \<Rightarrow> chat" where
  "startHttpFallback r s =
     (if r_useHttpFallback r then s else s\<lparr> healthChecks := Suc (healthChecks s) \<rparr>)"

definition startHttpFallback_resume :: "config \<Rightarrow> unit fetched \<Rightarrow> chat \<Rightarrow> chat" where
  "startHttpFallback_resume cfg probe s =
     (if checkHealth cfg probe then
        s\<lparr> useHttpFallback := True, connectionState := PollMode,
           pollIntervalRef := True, messagePollIntervalRef := True \<rparr>
      else s)"

definition stopHttpFallback :: "chat \<Rightarrow> chat" where
  "stopHttpFallback s =
     s\<lparr> useHttpFallback := False, pollIntervalRef := False, messagePollIntervalRef := False \<rparr>"

section \<open>Primary transport\<close>

text \<open>
  \<^verbatim>\<open>connect\<close>. \<open>ctor_ok\<close> says whether \<^verbatim>\<open>new WebSocket(url)\<close> returned a socket or
  threw. The address of the socket (scheme upgrade, session parameter) plays no part in
  the state and is not kept. The new socket starts in \<open>CONNECTING\<close>, and its handlers
  close over the render \<open>r\<close> this \<^verbatim>\<open>connect\<close> was created in.
\<close>

definition connect :: "render \<Rightarrow> config \<Rightarrow> bool \<Rightarrow> chat \<Rightarrow> chat" where
  "connect r cfg ctor_ok s =
     (if GATEWAY_WS_URL cfg = [] then
        startHttpFallback r
          (s\<lparr> console := console s @ [''No WebSocket URL configured, using HTTP fallback''] \<rparr>)
      else if (case wsRef s of None \<Rightarrow> False
               | Some w \<Rightarrow> readyState w = OPEN \<or> readyState w = CONNECTING) then s
      else
        (let s1 = stopHttpFallback s;
             s2 = s1\<lparr> connectionState :=
                        (if 0 < r_reconnectAttempt r then Reconnecting else Connecting) \<rparr>
         in if ctor_ok then
              s2\<lparr> wsRef := Some \<lparr> readyState = CONNECTING, captured = r \<rparr> \<rparr>
            else
              (let s3 = s2\<lparr> console := console s2 @ [''Failed to create WebSocket:''],
                            connectionState := Disconnected,
                            reconnectAttempt := reconnectAttempt s2 + 1 \<rparr>
               in if MAX_WS_RECONNECT_ATTEMPTS - 1 \<le> r_reconnectAttempt r
                  then startHttpFallback r s3 else s3)))"

text \<open>
  \<^verbatim>\<open>ws.onopen\<close>: it reads no captured value. The handshake frame is written, then the
  pending message when the slot holds a non-empty one.
\<close>

definition ws_onopen :: "chat \<Rightarrow> chat" where
  "ws_onopen s =
     (let s1 = s\<lparr> connectionState := Connected, reconnectAttempt := 0,
                   useHttpFallback := False,
                   serayahStatus := (serayahStatus s)\<lparr> status := Online \<rparr>,
                   wsSent := wsSent s @ [ConnectFrame] \<rparr>
      in (case pendingMessageRef s1 of
            None \<Rightarrow> s1
          | Some c \<Rightarrow>
              (if c \<noteq> [] then
                 s1\<lparr> wsSent := wsSent s1 @ [MessageFrame c], pendingMessageRef := None \<rparr>
               else s1)))"

text \<open>\<^verbatim>\<open>handleWsMessage\<close>, on a decoded frame, at clock reading \<open>now\<close>.\<close>

definition handleWsMessage :: "(json \<Rightarrow> string) \<Rightarrow> nat \<Rightarrow> json \<Rightarrow> chat \<Rightarrow> chat" where
  "handleWsMessage stringify now data s =
     (if \<not> is_object data then s
      else if getprop (Some data) ''type'' = Some (JStr ''event'') then
        (let ev = getprop (Some data) ''event'';
             payload = getprop (Some data) ''payload''
         in if ev = Some (JStr ''chat'') \<and> truthy (getprop payload ''message'') then
              appendMessage
                (localMessage now now Assistant (String_of (getprop payload ''message''))) s
            else if ev = Some (JStr ''presence'') \<and> truthy (getprop payload ''agent'') then
              (let agent = getprop payload ''agent''
               in s\<lparr> serayahStatus :=
                       \<lparr> status = mapAgentStatus (String_of (getprop agent ''status'')),
                         currentTask = getprop agent ''current_task'',
                         lastSeen = Some (DateNow now) \<rparr> \<rparr>)
            else s)
      else if getprop (Some data) ''type'' = Some (JStr ''message'')
              \<and> truthy (getprop (Some data) ''content'') then
        appendMessage
          (localMessage now now Assistant (String_of (getprop (Some data) ''content''))) s
      else if getprop (Some data) ''type'' = Some (JStr ''res'')
              \<and> truthy (getprop (Some data) ''result'') then
        appendMessage
          (localMessage now now Assistant
             (case getprop (Some data) ''result'' of
                Some (JStr t) \<Rightarrow> t
              | Some v \<Rightarrow> stringify v
              | None \<Rightarrow> [])) s
      else s)"

text \<open>
  \<^verbatim>\<open>ws.onmessage\<close> on a text frame: \<open>parse raw = None\<close> stands for \<^verbatim>\<open>JSON.parse\<close>
  throwing, which the \<^verbatim>\<open>catch\<close> turns into a plain-text message. On a decoded value
  \<^verbatim>\<open>handleWsMessage\<close> does not throw.
\<close>

definition ws_onmessage ::
    "(string \<Rightarrow> json option) \<Rightarrow> (json \<Rightarrow> string) \<Rightarrow> string \<Rightarrow> nat \<Rightarrow> chat \<Rightarrow> chat" where
  "ws_onmessage parse stringify raw now s =
     (case parse raw of
        Some data \<Rightarrow> handleWsMessage stringify now data s
      | None \<Rightarrow> appendMessage (localMessage now now Assistant raw) s)"

text \<open>
  \<^verbatim>\<open>ws.onclose\<close>: \<^verbatim>\<open>isOpen\<close> and \<^verbatim>\<open>reconnectAttempt\<close> are the captured ones; the
  counter is bumped by a functional update. The timer keeps the render too, since its
  callback calls the captured \<^verbatim>\<open>connect\<close>.
\<close>

definition ws_onclose :: "render \<Rightarrow> chat \<Rightarrow> chat" where
  "ws_onclose r s =
     (let s1 = s\<lparr> connectionState := Disconnected,
                   serayahStatus := (serayahStatus s)\<lparr> status := Offline \<rparr> \<rparr>
      in if r_isOpen r then
           (if r_reconnectAttempt r < MAX_WS_RECONNECT_ATTEMPTS then
              s1\<lparr> reconnectAttempt := reconnectAttempt s1 + 1,
                  reconnectTimeoutRef := Some (3000 * (r_reconnectAttempt r + 1), r),
                  timeoutsSet := timeoutsSet s1 @ [3000 * (r_reconnectAttempt r + 1)] \<rparr>
            else startHttpFallback r s1)
         else s1)"

text \<open>The callback of that timer: \<^verbatim>\<open>if (isOpen) connect()\<close>, both captured.\<close>

definition reconnect_timeout :: "config \<Rightarrow> bool \<Rightarrow> chat \<Rightarrow> chat" where
  "reconnect_timeout cfg ctor_ok s =
     (case reconnectTimeoutRef s of
        None \<Rightarrow> s
      | Some (d, r) \<Rightarrow> (if r_isOpen r then connect r cfg ctor_ok s else s))"

text \<open>\<^verbatim>\<open>ws.onerror\<close>: a log line and \<^verbatim>\<open>ws.close()\<close>; the close event follows.\<close>

definition ws_onerror :: "chat \<Rightarrow> chat" where
  "ws_onerror s =
     s\<lparr> console := console s @ [''WebSocket connection error:''],
        wsRef := map_option (\<lambda>w. w\<lparr> readyState := CLOSING \<rparr>) (wsRef s) \<rparr>"

text \<open>\<^verbatim>\<open>disconnect\<close>.\<close>

definition disconnect :: "chat \<Rightarrow> chat" where
  "disconnect s =
     (stopHttpFallback (s\<lparr> reconnectTimeoutRef := None, wsRef := None \<rparr>))
       \<lparr> connectionState := Disconnected, reconnectAttempt := 0 \<rparr>"

section \<open>Sending\<close>

text \<open>
  \<^verbatim>\<open>sendMessage\<close> on the text of the input box. \<open>trim\<close> is \<^verbatim>\<open>String.prototype.trim\<close>,
  \<open>now\<close> the clock when the handler starts and \<open>later\<close> the clock after the POST has
  been awaited.
\<close>

definition ws_is_open :: "chat \<Rightarrow> bool" where
  "ws_is_open s = (case wsRef s of None \<Rightarrow> False | Some w \<Rightarrow> readyState w = OPEN)"

definition sendMessage ::
    "(string \<Rightarrow> string) \<Rightarrow> render \<Rightarrow> config \<Rightarrow> bool \<Rightarrow> string \<Rightarrow> nat \<Rightarrow> unit fetched \<Rightarrow> nat
       \<Rightarrow> chat \<Rightarrow> chat" where
  "sendMessage trim r cfg ctor_ok input now post later s =
     (if trim input = [] then s
      else
        (let content = trim input;
             s1 = appendMessage (localMessage now now User content) s
         in if ws_is_open s1 then s1\<lparr> wsSent := wsSent s1 @ [MessageFrame content] \<rparr>
            else if r_useHttpFallback r then
              (case sendMessageViaHttp cfg content post s1 of
                 (sent, s2) \<Rightarrow>
                   (if \<not> sent then
                      appendMessage (localMessage (later + 1) later System failure_notice) s2
                    else s2))
            else
              connect r cfg ctor_ok
                (appendMessage (localMessage (now + 1) now System connecting_notice)
                   (s1\<lparr> pendingMessageRef := Some content \<rparr>))))"

section \<open>Effects and events\<close>

text \<open>
  The effect that connects when the chat opens. Its body runs after a render in which
  one of its dependencies changed; its cleanup, made in the render before, runs first.
  The status request the body also issues changes the state when it returns, through
  \<open>fetchSerayahStatus\<close>.
\<close>

definition effect_connect :: "render \<Rightarrow> config \<Rightarrow> bool \<Rightarrow> chat \<Rightarrow> chat" where
  "effect_connect r cfg ctor_ok s =
     (if r_isOpen r then
        (if r_connectionState r = Disconnected \<and> \<not> r_useHttpFallback r
         then connect r cfg ctor_ok s else s)
      else s)"

definition effect_cleanup :: "render \<Rightarrow> chat \<Rightarrow> chat" where
  "effect_cleanup r s = (if \<not> r_isOpen r then disconnect s else s)"

text \<open>
  What can happen to the connection of the mounted component. A socket event is an
  event of the socket \<^verbatim>\<open>wsRef\<close> points to; it runs the handler with the render that
  socket captured. Events of a socket that \<^verbatim>\<open>wsRef\<close> has let go of are not among them. An effect runs with the render of the current state. The answer of a
  liveness probe resumes one suspended \<^verbatim>\<open>startHttpFallback\<close>.
\<close>

datatype event =
    ChatOpened
  | EffectRuns bool
  | SocketOpens
  | SocketCloses
  | SocketErrors
  | ReconnectTimerFires bool
  | HealthAnswered "unit fetched"

fun step :: "config \<Rightarrow> chat \<Rightarrow> event \<Rightarrow> chat" where
  "step cfg s ChatOpened = effect_cleanup (snapshot s) (s\<lparr> isOpen := True \<rparr>)"
| "step cfg s (EffectRuns ctor_ok) = effect_connect (snapshot s) cfg ctor_ok s"
| "step cfg s SocketOpens =
     (case wsRef s of
        None \<Rightarrow> s
      | Some w \<Rightarrow>
          (if readyState w = CONNECTING
           then ws_onopen (s\<lparr> wsRef := Some (w\<lparr> readyState := OPEN \<rparr>) \<rparr>) else s))"
| "step cfg s SocketCloses =
     (case wsRef s of
        None \<Rightarrow> s
      | Some w \<Rightarrow>
          (if readyState w \<noteq> CLOSED
           then ws_onclose (captured w) (s\<lparr> wsRef := Some (w\<lparr> readyState := CLOSED \<rparr>) \<rparr>)
           else s))"
| "step cfg s SocketErrors =
     (case wsRef s of
        None \<Rightarrow> s
      | Some w \<Rightarrow> (if readyState w \<noteq> CLOSED then ws_onerror s else s))"
| "step cfg s (ReconnectTimerFires ctor_ok) = reconnect_timeout cfg ctor_ok s"
| "step cfg s (HealthAnswered probe) =
     (if 0 < healthChecks s
      then startHttpFallback_resume cfg probe (s\<lparr> healthChecks := healthChecks s - 1 \<rparr>)
      else s)"

definition run :: "config \<Rightarrow> event list \<Rightarrow> chat \<Rightarrow> chat" where
  "run cfg evs s = foldl (step cfg) s evs"

section \<open>Scenarios\<close>

text \<open>A configuration with both addresses set.\<close>

definition example_config :: config where
  "example_config =
     \<lparr> GATEWAY_WS_URL = ''wss://gateway.example/ws'', MC_API_URL = ''https://api.example'' \<rparr>"

text \<open>
  The chat is opened and the gateway refuses \<open>n\<close> connections in a row: each time the
  effect connects (the state is \<^verbatim>\<open>disconnected\<close> again, so the effect runs) and the
  socket closes without having opened.
\<close>

definition failed_attempts :: "nat \<Rightarrow> event list" where
  "failed_attempts n = ChatOpened # concat (replicate n [EffectRuns True, SocketCloses])"

text \<open>A run of message polls made by one interval callback, each with its answer.\<close>

definition polls :: "render \<Rightarrow> config \<Rightarrow> item list fetched list \<Rightarrow> chat \<Rightarrow> chat" where
  "polls r cfg results s = foldl (\<lambda>s' res. pollMessages r cfg res s') s results"

text \<open>The render in poll-mode with the chat open, and an assistant item of the API.\<close>

definition open_render :: render where
  "open_render = \<lparr> r_connectionState = PollMode, r_isOpen = True,
     r_reconnectAttempt = 3, r_useHttpFallback = True \<rparr>"

definition assistant_item :: "string \<Rightarrow> string \<Rightarrow> item" where
  "assistant_item i c =
     \<lparr> i_id = i, i_content = c, i_role = ''assistant'', i_created_at = ''2026-01-01'' \<rparr>"

section \<open>Properties\<close>

subsection \<open>Status normalisation is closed\<close>

lemma mapAgentStatus_cases:
  "mapAgentStatus t =
     (if t \<in> {''online'', ''active''} then Online
      else if t \<in> {''working'', ''busy''} then Busy else Offline)"
  by (simp add: mapAgentStatus_def)

lemma handleWsMessage_status:
  "status (serayahStatus (handleWsMessage stringify now data s)) \<in>
     {Online, Busy, Offline, status (serayahStatus s)}"
  using mapAgentStatus_cases by (simp add: handleWsMessage_def appendMessage_def Let_def)

lemma fetchSerayahStatus_status:
  "status (serayahStatus (fetchSerayahStatus cfg res s)) \<in>
     {Online, Busy, Offline, status (serayahStatus s)}"
  using mapAgentStatus_cases
  by (simp add: fetchSerayahStatus_def split: fetched.split option.split)

text \<open>
  Claim C9. \<open>mapAgentStatus\<close> is defined on every string and returns \<open>Online\<close>,
  \<open>Busy\<close> or \<open>Offline\<close>, never \<open>Working\<close>: \<^verbatim>\<open>online\<close> and \<^verbatim>\<open>active\<close> give \<open>Online\<close>,
  \<^verbatim>\<open>working\<close> and \<^verbatim>\<open>busy\<close> give \<open>Busy\<close>, and every other string (among them
  \<^verbatim>\<open>offline\<close>, \<^verbatim>\<open>provisioning\<close>, \<^verbatim>\<open>running\<close>, \<^verbatim>\<open>processing\<close>) gives \<open>Offline\<close>.
  So after a frame of the socket (a presence event among them) and after an answer of
  the agents poll the status is one of those three, or the one it was before.
\<close>

theorem mapAgentStatus_closed:
  "mapAgentStatus t \<in> {Online, Busy, Offline}
   \<and> mapAgentStatus t \<noteq> Working
   \<and> (mapAgentStatus t = Online) = (t = ''online'' \<or> t = ''active'')
   \<and> (mapAgentStatus t = Busy) = (t = ''working'' \<or> t = ''busy'')
   \<and> (mapAgentStatus t = Offline)
       = (t \<noteq> ''online'' \<and> t \<noteq> ''active'' \<and> t \<noteq> ''working'' \<and> t \<noteq> ''busy'')
   \<and> mapAgentStatus ''offline'' = Offline \<and> mapAgentStatus ''provisioning'' = Offline
   \<and> mapAgentStatus ''running'' = Offline \<and> mapAgentStatus ''processing'' = Offline
   \<and> status (serayahStatus (handleWsMessage stringify now data s))
        \<in> {Online, Busy, Offline, status (serayahStatus s)}
   \<and> status (serayahStatus (fetchSerayahStatus cfg res s))
        \<in> {Online, Busy, Offline, status (serayahStatus s)}"
  using handleWsMessage_status[of stringify now data s] fetchSerayahStatus_status[of cfg res s]
  by (simp add: mapAgentStatus_def)

theorem mapAgentStatus_closed_witness:
  "mapAgentStatus ''working'' = Busy \<and> mapAgentStatus ''working'' \<noteq> Working
   \<and> mapAgentStatus ''idle'' = Offline"
  using mapAgentStatus_closed[where t = "''working''"] mapAgentStatus_closed[where t = "''idle''"]
  by simp

subsection \<open>Frames of the socket\<close>

text \<open>
  Claim C7. A frame whose text \<^verbatim>\<open>JSON.parse\<close> rejects adds exactly one message to the
  transcript: role assistant, content the text of the frame as it came. Nothing else
  of the state changes: the connection state stays, and no line is written to the
  console; the handler returns normally.
\<close>

theorem undecodable_frame_rendered_verbatim:
  assumes "parse raw = None"
  shows "ws_onmessage parse stringify raw now s =
           s\<lparr> messages := messages s @
                [\<lparr> m_id = toString now, m_role = Assistant, m_content = raw,
                   m_timestamp = DateNow now \<rparr>] \<rparr>
         \<and> connectionState (ws_onmessage parse stringify raw now s) = connectionState s
         \<and> console (ws_onmessage parse stringify raw now s) = console s
         \<and> length (messages (ws_onmessage parse stringify raw now s)) = Suc (length (messages s))"
  using assms by (simp add: ws_onmessage_def appendMessage_def localMessage_def)

theorem undecodable_frame_rendered_verbatim_witness:
  "messages (ws_onmessage (\<lambda>t. None) (\<lambda>v. []) ''pong'' 7 initial) =
     [\<lparr> m_id = ''7'', m_role = Assistant, m_content = ''pong'', m_timestamp = DateNow 7 \<rparr>]
   \<and> connectionState (ws_onmessage (\<lambda>t. None) (\<lambda>v. []) ''pong'' 7 initial) = Disconnected"
  using undecodable_frame_rendered_verbatim[of "\<lambda>t. None" "''pong''" "\<lambda>v. []" 7 initial]
  by (simp add: initial_def toString.simps digit_def)

lemma handleWsMessage_dropped:
  assumes "getprop (Some data) ''type''
             \<notin> {Some (JStr ''event''), Some (JStr ''message''), Some (JStr ''res'')}
           \<or> (getprop (Some data) ''type'' = Some (JStr ''message'')
                \<and> \<not> truthy (getprop (Some data) ''content''))
           \<or> (getprop (Some data) ''type'' = Some (JStr ''res'')
                \<and> \<not> truthy (getprop (Some data) ''result''))
           \<or> (getprop (Some data) ''type'' = Some (JStr ''event'')
                \<and> getprop (Some data) ''event'' = Some (JStr ''chat'')
                \<and> \<not> truthy (getprop (getprop (Some data) ''payload'') ''message''))
           \<or> (getprop (Some data) ''type'' = Some (JStr ''event'')
                \<and> getprop (Some data) ''event'' = Some (JStr ''presence'')
                \<and> \<not> truthy (getprop (getprop (Some data) ''payload'') ''agent''))"
  shows "handleWsMessage stringify now data s = s"
  using assms by (auto simp add: handleWsMessage_def Let_def)

text \<open>
  Claim C10. A frame that decodes, but whose \<^verbatim>\<open>type\<close> is none of \<^verbatim>\<open>event\<close>,
  \<^verbatim>\<open>message\<close>, \<^verbatim>\<open>res\<close>, or whose needed field is absent or falsy (a \<^verbatim>\<open>message\<close>
  without \<^verbatim>\<open>content\<close>, a \<^verbatim>\<open>res\<close> without \<^verbatim>\<open>result\<close>, a \<^verbatim>\<open>chat\<close> event without
  \<^verbatim>\<open>payload.message\<close>, a \<^verbatim>\<open>presence\<close> event without \<^verbatim>\<open>payload.agent\<close>) leaves the
  whole state as it was: no transcript entry, no status change, no plain-text entry.
\<close>

theorem unrecognised_frame_dropped:
  assumes "parse raw = Some data"
    and "getprop (Some data) ''type''
             \<notin> {Some (JStr ''event''), Some (JStr ''message''), Some (JStr ''res'')}
           \<or> (getprop (Some data) ''type'' = Some (JStr ''message'')
                \<and> \<not> truthy (getprop (Some data) ''content''))
           \<or> (getprop (Some data) ''type'' = Some (JStr ''res'')
                \<and> \<not> truthy (getprop (Some data) ''result''))
           \<or> (getprop (Some data) ''type'' = Some (JStr ''event'')
                \<and> getprop (Some data) ''event'' = Some (JStr ''chat'')
                \<and> \<not> truthy (getprop (getprop (Some data) ''payload'') ''message''))
           \<or> (getprop (Some data) ''type'' = Some (JStr ''event'')
                \<and> getprop (Some data) ''event'' = Some (JStr ''presence'')
                \<and> \<not> truthy (getprop (getprop (Some data) ''payload'') ''agent''))"
  shows "ws_onmessage parse stringify raw now s = s"
  using assms(1) handleWsMessage_dropped[OF assms(2)] by (simp add: ws_onmessage_def)

theorem unrecognised_frame_dropped_witness:
  "ws_onmessage (\<lambda>t. Some (JObj [(''type'', JStr ''ping'')])) (\<lambda>v. []) ''x'' 7 initial = initial
   \<and> ws_onmessage (\<lambda>t. Some (JObj [(''type'', JStr ''message''), (''content'', JStr [])]))
        (\<lambda>v. []) ''x'' 7 initial = initial
   \<and> ws_onmessage (\<lambda>t. Some (JObj [(''type'', JStr ''event''), (''event'', JStr ''presence''),
         (''payload'', JObj [(''agent'', JNull)])])) (\<lambda>v. []) ''x'' 7 initial = initial"
  using unrecognised_frame_dropped[of "\<lambda>t. Some (JObj [(''type'', JStr ''ping'')])" "''x''"
           "JObj [(''type'', JStr ''ping'')]" "\<lambda>v. []" 7 initial]
    unrecognised_frame_dropped[of "\<lambda>t. Some (JObj [(''type'', JStr ''message''), (''content'', JStr [])])" "''x''"
           "JObj [(''type'', JStr ''message''), (''content'', JStr [])]" "\<lambda>v. []" 7 initial]
    unrecognised_frame_dropped[of "\<lambda>t. Some (JObj [(''type'', JStr ''event''), (''event'', JStr ''presence''),
         (''payload'', JObj [(''agent'', JNull)])])" "''x''"
           "JObj [(''type'', JStr ''event''), (''event'', JStr ''presence''),
         (''payload'', JObj [(''agent'', JNull)])]" "\<lambda>v. []" 7 initial]
  by simp

subsection \<open>Entering fallback\<close>

lemma timers_step:
  assumes "pollIntervalRef (step cfg s ev) \<or> messagePollIntervalRef (step cfg s ev)"
  shows "pollIntervalRef s \<or> messagePollIntervalRef s
         \<or> (\<exists>probe. ev = HealthAnswered probe \<and> checkHealth cfg probe \<and> 0 < healthChecks s)"
proof (cases ev)
  case ChatOpened
  with assms show ?thesis
    by (auto simp add: effect_cleanup_def disconnect_def stopHttpFallback_def snapshot_def
        split: if_splits)
next
  case (EffectRuns ok)
  with assms show ?thesis
    by (auto simp add: effect_connect_def connect_def startHttpFallback_def stopHttpFallback_def
        Let_def split: if_splits option.splits)
next
  case SocketOpens
  with assms show ?thesis
    by (auto simp add: ws_onopen_def Let_def split: if_splits option.splits)
next
  case SocketCloses
  with assms show ?thesis
    by (auto simp add: ws_onclose_def startHttpFallback_def Let_def split: if_splits option.splits)
next
  case SocketErrors
  with assms show ?thesis
    by (auto simp add: ws_onerror_def split: if_splits option.splits)
next
  case (ReconnectTimerFires ok)
  with assms show ?thesis
    by (auto simp add: reconnect_timeout_def connect_def startHttpFallback_def
        stopHttpFallback_def Let_def split: if_splits option.splits)
next
  case (HealthAnswered probe)
  with assms show ?thesis
    by (auto simp add: startHttpFallback_resume_def split: if_splits)
qed

lemma foldl_addPolled_timers:
  "pollIntervalRef (foldl addPolled s items) = pollIntervalRef s
   \<and> messagePollIntervalRef (foldl addPolled s items) = messagePollIntervalRef s"
  by (induction items arbitrary: s) (simp_all add: addPolled_def)

lemma timers_other_handlers:
  "(pollIntervalRef (sendMessage trim r cfg ok input now post later s) \<longrightarrow> pollIntervalRef s)
   \<and> (messagePollIntervalRef (sendMessage trim r cfg ok input now post later s)
        \<longrightarrow> messagePollIntervalRef s)
   \<and> pollIntervalRef (pollMessages r cfg res s) = pollIntervalRef s
   \<and> messagePollIntervalRef (pollMessages r cfg res s) = messagePollIntervalRef s
   \<and> pollIntervalRef (fetchSerayahStatus cfg ares s) = pollIntervalRef s
   \<and> messagePollIntervalRef (fetchSerayahStatus cfg ares s) = messagePollIntervalRef s
   \<and> pollIntervalRef (ws_onmessage parse stringify raw now s) = pollIntervalRef s
   \<and> messagePollIntervalRef (ws_onmessage parse stringify raw now s) = messagePollIntervalRef s"
proof -
  have c: "(pollIntervalRef (connect r cfg ok t) \<longrightarrow> pollIntervalRef t)
        \<and> (messagePollIntervalRef (connect r cfg ok t) \<longrightarrow> messagePollIntervalRef t)" for t
    by (simp add: connect_def startHttpFallback_def stopHttpFallback_def Let_def
        split: option.split)
  have "(pollIntervalRef (sendMessage trim r cfg ok input now post later s) \<longrightarrow> pollIntervalRef s)
   \<and> (messagePollIntervalRef (sendMessage trim r cfg ok input now post later s)
        \<longrightarrow> messagePollIntervalRef s)"
    using c[of "appendMessage (localMessage (now + 1) now System connecting_notice)
                   ((appendMessage (localMessage now now User (trim input)) s)
                      \<lparr> pendingMessageRef := Some (trim input) \<rparr>)"]
    by (auto simp add: sendMessage_def sendMessageViaHttp_def appendMessage_def Let_def
        split: fetched.splits)
  moreover have "pollIntervalRef (pollMessages r cfg res s) = pollIntervalRef s
   \<and> messagePollIntervalRef (pollMessages r cfg res s) = messagePollIntervalRef s"
    by (simp add: pollMessages_def foldl_addPolled_timers split: fetched.split)
  moreover have "pollIntervalRef (fetchSerayahStatus cfg ares s) = pollIntervalRef s
   \<and> messagePollIntervalRef (fetchSerayahStatus cfg ares s) = messagePollIntervalRef s"
    by (simp add: fetchSerayahStatus_def split: fetched.split option.split)
  moreover have "pollIntervalRef (ws_onmessage parse stringify raw now s) = pollIntervalRef s
   \<and> messagePollIntervalRef (ws_onmessage parse stringify raw now s) = messagePollIntervalRef s"
    by (simp add: ws_onmessage_def handleWsMessage_def appendMessage_def Let_def
        split: option.split)
  ultimately show ?thesis by simp
qed

text \<open>
  Claim C6. The polling timers are started exactly when the liveness probe that
  \<^verbatim>\<open>startHttpFallback\<close> awaited has succeeded (an API base is configured and
  \<^verbatim>\<open>GET /health\<close> answered with an ok status): then the state becomes poll-mode and
  both timers run. When the probe fails or throws, or no API base is configured, the
  state is left as it was. The part before the probe touches neither timers nor
  connection state, and nothing else starts a timer: no other event of the connection,
  no send, no answer of a poll, no frame.
\<close>

theorem fallback_starts_iff_probe_succeeds:
  "checkHealth cfg probe = (MC_API_URL cfg \<noteq> [] \<and> probe = Response True ())
   \<and> startHttpFallback_resume cfg probe s =
       (if MC_API_URL cfg \<noteq> [] \<and> probe = Response True ()
        then s\<lparr> useHttpFallback := True, connectionState := PollMode,
                pollIntervalRef := True, messagePollIntervalRef := True \<rparr>
        else s)
   \<and> pollIntervalRef (startHttpFallback r s) = pollIntervalRef s
   \<and> messagePollIntervalRef (startHttpFallback r s) = messagePollIntervalRef s
   \<and> connectionState (startHttpFallback r s) = connectionState s
   \<and> useHttpFallback (startHttpFallback r s) = useHttpFallback s
   \<and> (pollIntervalRef (step cfg s ev) \<or> messagePollIntervalRef (step cfg s ev)
        \<longrightarrow> pollIntervalRef s \<or> messagePollIntervalRef s
            \<or> (ev = HealthAnswered (Response True ()) \<and> MC_API_URL cfg \<noteq> []
               \<and> 0 < healthChecks s))
   \<and> (pollIntervalRef (sendMessage trim r cfg ok input now post later s)
        \<longrightarrow> pollIntervalRef s)
   \<and> (messagePollIntervalRef (sendMessage trim r cfg ok input now post later s)
        \<longrightarrow> messagePollIntervalRef s)
   \<and> pollIntervalRef (pollMessages r cfg res s) = pollIntervalRef s
   \<and> messagePollIntervalRef (pollMessages r cfg res s) = messagePollIntervalRef s
   \<and> pollIntervalRef (fetchSerayahStatus cfg ares s) = pollIntervalRef s
   \<and> messagePollIntervalRef (fetchSerayahStatus cfg ares s) = messagePollIntervalRef s
   \<and> pollIntervalRef (ws_onmessage parse stringify raw now s) = pollIntervalRef s
   \<and> messagePollIntervalRef (ws_onmessage parse stringify raw now s) = messagePollIntervalRef s"
proof -
  have h: "checkHealth cfg p = (MC_API_URL cfg \<noteq> [] \<and> p = Response True ())" for p
    by (cases p) (auto simp add: checkHealth_def)
  have "startHttpFallback_resume cfg probe s =
       (if MC_API_URL cfg \<noteq> [] \<and> probe = Response True ()
        then s\<lparr> useHttpFallback := True, connectionState := PollMode,
                pollIntervalRef := True, messagePollIntervalRef := True \<rparr>
        else s)"
    by (simp add: startHttpFallback_resume_def h)
  moreover have "pollIntervalRef (startHttpFallback r s) = pollIntervalRef s"
    "messagePollIntervalRef (startHttpFallback r s) = messagePollIntervalRef s"
    "connectionState (startHttpFallback r s) = connectionState s"
    "useHttpFallback (startHttpFallback r s) = useHttpFallback s"
    by (simp_all add: startHttpFallback_def)
  moreover have "pollIntervalRef (step cfg s ev) \<or> messagePollIntervalRef (step cfg s ev)
        \<longrightarrow> pollIntervalRef s \<or> messagePollIntervalRef s
            \<or> (ev = HealthAnswered (Response True ()) \<and> MC_API_URL cfg \<noteq> []
               \<and> 0 < healthChecks s)"
    using timers_step[of cfg s ev] h by auto
  ultimately show ?thesis
    using h timers_other_handlers[of trim r cfg ok input now post later s res ares parse
        stringify raw]
    by simp
qed

theorem fallback_starts_iff_probe_succeeds_witness:
  "startHttpFallback_resume example_config (Response True ()) initial =
     initial\<lparr> useHttpFallback := True, connectionState := PollMode,
              pollIntervalRef := True, messagePollIntervalRef := True \<rparr>
   \<and> startHttpFallback_resume example_config (Response False ()) initial = initial
   \<and> startHttpFallback_resume example_config Threw initial = initial
   \<and> startHttpFallback_resume (example_config\<lparr> MC_API_URL := [] \<rparr>) (Response True ()) initial
       = initial
   \<and> pollIntervalRef (step example_config (initial\<lparr> healthChecks := 1 \<rparr>)
         (HealthAnswered (Response True ())))
   \<and> \<not> pollIntervalRef (initial\<lparr> healthChecks := 1 \<rparr>)"
  using fallback_starts_iff_probe_succeeds[where cfg = example_config
          and probe = "Response True ()" and s = initial]
    fallback_starts_iff_probe_succeeds[where cfg = example_config
          and probe = "Response False ()" and s = initial]
    fallback_starts_iff_probe_succeeds[where cfg = example_config
          and probe = Threw and s = initial]
    fallback_starts_iff_probe_succeeds[where cfg = "example_config\<lparr> MC_API_URL := [] \<rparr>"
          and probe = "Response True ()" and s = initial]
    fallback_starts_iff_probe_succeeds[where cfg = example_config
          and probe = "Response True ()" and s = "initial\<lparr> healthChecks := 1 \<rparr>"
          and ev = "HealthAnswered (Response True ())"]
  by (simp add: example_config_def initial_def)

subsection \<open>Sending\<close>

lemma connect_messages: "messages (connect r cfg ok s) = messages s"
  by (simp add: connect_def startHttpFallback_def stopHttpFallback_def Let_def split: option.split)

lemma connect_httpPosts: "httpPosts (connect r cfg ok s) = httpPosts s"
  by (simp add: connect_def startHttpFallback_def stopHttpFallback_def Let_def split: option.split)

lemma failure_not_connecting: "failure_notice \<noteq> connecting_notice"
  by (simp add: failure_notice_def connecting_notice_def)

text \<open>
  Claim C8. A non-blank message sent in fallback mode, with the socket not open: when
  the POST throws or is answered with a status that is not ok, the transcript gains
  the user's message and exactly one system message, the delivery-failure notice, and
  exactly one POST was made (no retry, nothing put in the pending slot); when the POST
  is accepted, only the user's message is added. (Were no API base configured, the
  notice would be added without any POST.) Over an open socket only the user's
  message is added, and with no transport the second entry is the connecting notice,
  a different text: the failure notice appears in fallback mode only.
\<close>

theorem fallback_send_failure_notice:
  assumes "trim input \<noteq> []"
  shows "(\<not> ws_is_open s \<and> r_useHttpFallback r \<and> MC_API_URL cfg \<noteq> []
            \<and> (post = Threw \<or> post = Response False ()) \<longrightarrow>
            messages (sendMessage trim r cfg ok input now post later s) =
              messages s @ [localMessage now now User (trim input),
                            localMessage (later + 1) later System failure_notice]
            \<and> httpPosts (sendMessage trim r cfg ok input now post later s) =
                httpPosts s @ [trim input]
            \<and> pendingMessageRef (sendMessage trim r cfg ok input now post later s) =
                pendingMessageRef s)
       \<and> (\<not> ws_is_open s \<and> r_useHttpFallback r \<and> MC_API_URL cfg \<noteq> []
            \<and> post = Response True () \<longrightarrow>
            messages (sendMessage trim r cfg ok input now post later s) =
              messages s @ [localMessage now now User (trim input)]
            \<and> httpPosts (sendMessage trim r cfg ok input now post later s) =
                httpPosts s @ [trim input])
       \<and> (\<not> ws_is_open s \<and> r_useHttpFallback r \<and> MC_API_URL cfg = [] \<longrightarrow>
            messages (sendMessage trim r cfg ok input now post later s) =
              messages s @ [localMessage now now User (trim input),
                            localMessage (later + 1) later System failure_notice]
            \<and> httpPosts (sendMessage trim r cfg ok input now post later s) = httpPosts s)
       \<and> (ws_is_open s \<longrightarrow>
            messages (sendMessage trim r cfg ok input now post later s) =
              messages s @ [localMessage now now User (trim input)]
            \<and> httpPosts (sendMessage trim r cfg ok input now post later s) = httpPosts s)
       \<and> (\<not> ws_is_open s \<and> \<not> r_useHttpFallback r \<longrightarrow>
            messages (sendMessage trim r cfg ok input now post later s) =
              messages s @ [localMessage now now User (trim input),
                            localMessage (now + 1) now System connecting_notice]
            \<and> httpPosts (sendMessage trim r cfg ok input now post later s) = httpPosts s)
       \<and> failure_notice \<noteq> connecting_notice"
proof -
  have open_unchanged: "ws_is_open (s\<lparr> messages := ms \<rparr>) = ws_is_open s" for ms
    by (simp add: ws_is_open_def)
  have a: "\<not> ws_is_open s \<and> r_useHttpFallback r \<and> MC_API_URL cfg \<noteq> []
            \<and> (post = Threw \<or> post = Response False ()) \<longrightarrow>
            messages (sendMessage trim r cfg ok input now post later s) =
              messages s @ [localMessage now now User (trim input),
                            localMessage (later + 1) later System failure_notice]
            \<and> httpPosts (sendMessage trim r cfg ok input now post later s) =
                httpPosts s @ [trim input]
            \<and> pendingMessageRef (sendMessage trim r cfg ok input now post later s) =
                pendingMessageRef s"
    using assms
    by (auto simp add: sendMessage_def sendMessageViaHttp_def Let_def open_unchanged
        appendMessage_def)
  have b: "\<not> ws_is_open s \<and> r_useHttpFallback r \<and> MC_API_URL cfg \<noteq> []
            \<and> post = Response True () \<longrightarrow>
            messages (sendMessage trim r cfg ok input now post later s) =
              messages s @ [localMessage now now User (trim input)]
            \<and> httpPosts (sendMessage trim r cfg ok input now post later s) =
                httpPosts s @ [trim input]"
    using assms
    by (auto simp add: sendMessage_def sendMessageViaHttp_def Let_def open_unchanged
        appendMessage_def)
  have e: "\<not> ws_is_open s \<and> r_useHttpFallback r \<and> MC_API_URL cfg = [] \<longrightarrow>
            messages (sendMessage trim r cfg ok input now post later s) =
              messages s @ [localMessage now now User (trim input),
                            localMessage (later + 1) later System failure_notice]
            \<and> httpPosts (sendMessage trim r cfg ok input now post later s) = httpPosts s"
    using assms
    by (auto simp add: sendMessage_def sendMessageViaHttp_def Let_def open_unchanged
        appendMessage_def)
  have c: "ws_is_open s \<longrightarrow>
            messages (sendMessage trim r cfg ok input now post later s) =
              messages s @ [localMessage now now User (trim input)]
            \<and> httpPosts (sendMessage trim r cfg ok input now post later s) = httpPosts s"
    using assms
    by (auto simp add: sendMessage_def Let_def open_unchanged appendMessage_def)
  have d: "\<not> ws_is_open s \<and> \<not> r_useHttpFallback r \<longrightarrow>
            messages (sendMessage trim r cfg ok input now post later s) =
              messages s @ [localMessage now now User (trim input),
                            localMessage (now + 1) now System connecting_notice]
            \<and> httpPosts (sendMessage trim r cfg ok input now post later s) = httpPosts s"
    using assms
    by (auto simp add: sendMessage_def Let_def open_unchanged connect_messages
        connect_httpPosts appendMessage_def)
  from a b e c d failure_not_connecting show ?thesis by blast
qed

theorem fallback_send_failure_notice_witness:
  "map m_content (messages (sendMessage id open_render example_config True ''hello'' 5
       Threw 9 initial)) = [''hello'', failure_notice]
   \<and> map m_content (messages (sendMessage id open_render example_config True ''hello'' 5
       (Response True ()) 9 initial)) = [''hello'']
   \<and> map m_content (messages (sendMessage id open_render
       (example_config\<lparr> MC_API_URL := [] \<rparr>) True ''hello'' 5 Threw 9 initial))
       = [''hello'', failure_notice]
   \<and> map m_content (messages (sendMessage id open_render example_config True ''hello'' 5
       Threw 9 (initial\<lparr> wsRef := Some \<lparr> readyState = OPEN, captured = open_render \<rparr> \<rparr>)))
       = [''hello'']
   \<and> map m_content (messages (sendMessage id (snapshot initial) example_config True ''hello'' 5
       Threw 9 initial)) = [''hello'', connecting_notice]"
  using fallback_send_failure_notice[of id "''hello''" initial open_render example_config Threw
      True 5 9]
    fallback_send_failure_notice[of id "''hello''" initial open_render example_config
      "Response True ()" True 5 9]
    fallback_send_failure_notice[of id "''hello''" initial open_render
      "example_config\<lparr> MC_API_URL := [] \<rparr>" Threw True 5 9]
    fallback_send_failure_notice[of id "''hello''"
      "initial\<lparr> wsRef := Some \<lparr> readyState = OPEN, captured = open_render \<rparr> \<rparr>"
      open_render example_config Threw True 5 9]
    fallback_send_failure_notice[of id "''hello''" initial "snapshot initial" example_config Threw
      True 5 9]
  by (simp add: initial_def example_config_def open_render_def snapshot_def ws_is_open_def
      localMessage_def)

lemma sendMessage_pending:
  assumes "trim input \<noteq> []" "\<not> ws_is_open s" "\<not> r_useHttpFallback r"
  shows "sendMessage trim r cfg ok input now post later s =
           connect r cfg ok
             (s\<lparr> pendingMessageRef := Some (trim input),
                  messages := messages s @ [localMessage now now User (trim input),
                                  localMessage (now + 1) now System connecting_notice] \<rparr>)"
  using assms by (simp add: sendMessage_def Let_def appendMessage_def ws_is_open_def)

lemma connect_frame:
  "pendingMessageRef (connect r cfg ok s) = pendingMessageRef s
   \<and> wsSent (connect r cfg ok s) = wsSent s
   \<and> httpPosts (connect r cfg ok s) = httpPosts s
   \<and> ws_is_open (connect r cfg ok s) = ws_is_open s"
  by (auto simp add: connect_def startHttpFallback_def stopHttpFallback_def Let_def ws_is_open_def
      split: option.split)

lemma connect_connecting:
  assumes "GATEWAY_WS_URL cfg \<noteq> []" "\<not> ws_is_open s" "ok"
  shows "\<exists>w. wsRef (connect r cfg ok s) = Some w \<and> readyState w = CONNECTING"
  using assms
  by (auto simp add: connect_def stopHttpFallback_def Let_def ws_is_open_def split: option.split)

lemma connect_keeps_connecting:
  assumes "wsRef s = Some w" "readyState w = CONNECTING"
  shows "connect r cfg ok s = startHttpFallback r
          (s\<lparr> console := console s @ [''No WebSocket URL configured, using HTTP fallback''] \<rparr>)
         \<or> connect r cfg ok s = s"
  using assms by (simp add: connect_def)

text \<open>
  Claim C5. A is sent while the socket is not open and fallback is off, then B under
  the same conditions, with no socket event in between (a gateway address is
  configured and the socket was created). After the second send the pending slot holds
  B alone; nothing has been written to the socket or POSTed. When the socket then
  opens, the handshake frame and exactly one message frame, carrying B, are written
  and the slot is cleared: A is never transmitted.
\<close>

theorem pending_slot_keeps_latest:
  assumes "trim a \<noteq> []" and "trim b \<noteq> []"
    and "\<not> ws_is_open s" and "\<not> r_useHttpFallback r1" and "\<not> r_useHttpFallback r2"
    and "GATEWAY_WS_URL cfg \<noteq> []" and "ok1"
    and "s1 = sendMessage trim r1 cfg ok1 a now1 post1 later1 s"
    and "s2 = sendMessage trim r2 cfg ok2 b now2 post2 later2 s1"
  shows "pendingMessageRef s1 = Some (trim a)
       \<and> pendingMessageRef s2 = Some (trim b)
       \<and> wsSent s2 = wsSent s \<and> httpPosts s2 = httpPosts s
       \<and> wsSent (step cfg s2 SocketOpens) = wsSent s @ [ConnectFrame, MessageFrame (trim b)]
       \<and> httpPosts (step cfg s2 SocketOpens) = httpPosts s
       \<and> pendingMessageRef (step cfg s2 SocketOpens) = None
       \<and> ws_is_open (step cfg s2 SocketOpens)"
proof -
  let ?t1 = "s\<lparr> pendingMessageRef := Some (trim a),
                  messages := messages s @ [localMessage now1 now1 User (trim a),
                                  localMessage (now1 + 1) now1 System connecting_notice] \<rparr>"
  have e1: "s1 = connect r1 cfg ok1 ?t1"
    using assms by (simp add: sendMessage_pending)
  have n1: "\<not> ws_is_open ?t1" using assms(3) by (simp add: ws_is_open_def)
  have p1: "pendingMessageRef s1 = Some (trim a)" "wsSent s1 = wsSent s"
    "httpPosts s1 = httpPosts s" "\<not> ws_is_open s1"
    using n1 by (simp_all add: e1 connect_frame)
  obtain w where w: "wsRef s1 = Some w" "readyState w = CONNECTING"
    using connect_connecting[OF assms(6) n1 assms(7)] e1 by auto
  let ?t2 = "s1\<lparr> pendingMessageRef := Some (trim b),
                  messages := messages s1 @ [localMessage now2 now2 User (trim b),
                                  localMessage (now2 + 1) now2 System connecting_notice] \<rparr>"
  have e2: "s2 = connect r2 cfg ok2 ?t2"
    using assms p1 by (simp add: sendMessage_pending)
  have "connect r2 cfg ok2 ?t2 = ?t2"
    using w assms(6) by (simp add: connect_def)
  then have s2: "s2 = ?t2" using e2 by simp
  have p2: "pendingMessageRef s2 = Some (trim b)" "wsSent s2 = wsSent s"
    "httpPosts s2 = httpPosts s" "wsRef s2 = Some w"
    using p1 w by (simp_all add: s2)
  have o: "step cfg s2 SocketOpens = ws_onopen (s2\<lparr> wsRef := Some (w\<lparr> readyState := OPEN \<rparr>) \<rparr>)"
    using p2 w by simp
  have "wsSent (step cfg s2 SocketOpens) = wsSent s @ [ConnectFrame, MessageFrame (trim b)]"
    "httpPosts (step cfg s2 SocketOpens) = httpPosts s"
    "pendingMessageRef (step cfg s2 SocketOpens) = None"
    "ws_is_open (step cfg s2 SocketOpens)"
    unfolding o using p2 assms(2) by (simp_all add: ws_onopen_def ws_is_open_def Let_def)
  with p1 p2 show ?thesis by simp
qed

theorem pending_slot_keeps_latest_witness:
  "wsSent (step example_config
     (sendMessage id (snapshot initial) example_config True ''B'' 2 Threw 3
        (sendMessage id (snapshot initial) example_config True ''A'' 0 Threw 1 initial))
     SocketOpens) = [ConnectFrame, MessageFrame ''B'']"
  using pending_slot_keeps_latest[of id "''A''" "''B''" initial "snapshot initial" "snapshot initial"
      example_config True
      "sendMessage id (snapshot initial) example_config True ''A'' 0 Threw 1 initial"
      0 Threw 1
      "sendMessage id (snapshot initial) example_config True ''B'' 2 Threw 3
        (sendMessage id (snapshot initial) example_config True ''A'' 0 Threw 1 initial)"
      True 2 Threw 3]
  by (simp add: initial_def snapshot_def example_config_def ws_is_open_def)

subsection \<open>Reconnection backoff\<close>

lemma ws_onclose_schedule:
  assumes "r_isOpen r"
  shows "timeoutsSet (ws_onclose r s) =
           timeoutsSet s @ (if r_reconnectAttempt r < 3 then [3000 * (r_reconnectAttempt r + 1)] else [])
       \<and> reconnectTimeoutRef (ws_onclose r s) =
           (if r_reconnectAttempt r < 3 then Some (3000 * (r_reconnectAttempt r + 1), r)
            else reconnectTimeoutRef s)
       \<and> healthChecks (ws_onclose r s) =
           (if r_reconnectAttempt r < 3 \<or> r_useHttpFallback r then healthChecks s
            else Suc (healthChecks s))
       \<and> reconnectAttempt (ws_onclose r s) =
           (if r_reconnectAttempt r < 3 then Suc (reconnectAttempt s) else reconnectAttempt s)"
  using assms
  by (simp add: ws_onclose_def startHttpFallback_def MAX_WS_RECONNECT_ATTEMPTS_def Let_def)

lemma run_failed_attempts_Suc:
  "run cfg (failed_attempts (Suc n)) s =
     step cfg (step cfg (run cfg (failed_attempts n) s) (EffectRuns True)) SocketCloses"
proof -
  have "replicate (Suc n) [EffectRuns True, SocketCloses] =
          replicate n [EffectRuns True, SocketCloses] @ [[EffectRuns True, SocketCloses]]"
    by (simp add: replicate_append_same)
  then have "failed_attempts (Suc n) = failed_attempts n @ [EffectRuns True, SocketCloses]"
    unfolding failed_attempts_def by (simp del: replicate_Suc)
  then show ?thesis by (simp add: run_def)
qed

lemma failed_attempt_cycle:
  assumes "GATEWAY_WS_URL cfg \<noteq> []" and "isOpen s" and "connectionState s = Disconnected"
    and "\<not> useHttpFallback s"
    and "case wsRef s of None \<Rightarrow> True | Some w \<Rightarrow> readyState w = CLOSED"
  shows "step cfg (step cfg s (EffectRuns True)) SocketCloses =
           ws_onclose (snapshot s)
             ((stopHttpFallback s)
                \<lparr> connectionState := (if 0 < reconnectAttempt s then Reconnecting else Connecting),
                  wsRef := Some \<lparr> readyState = CLOSED, captured = snapshot s \<rparr> \<rparr>)"
proof -
  have w: "wsRef (stopHttpFallback s) = wsRef s"
    by (simp add: stopHttpFallback_def)
  have "step cfg s (EffectRuns True) =
          (stopHttpFallback s)
            \<lparr> connectionState := (if 0 < reconnectAttempt s then Reconnecting else Connecting),
              wsRef := Some \<lparr> readyState = CONNECTING, captured = snapshot s \<rparr> \<rparr>"
    using assms
    by (auto simp add: effect_connect_def connect_def snapshot_def Let_def split: option.splits)
  then show ?thesis by simp
qed

lemma failed_attempts_state:
  assumes "GATEWAY_WS_URL cfg \<noteq> []"
  shows "isOpen (run cfg (failed_attempts n) initial)
       \<and> connectionState (run cfg (failed_attempts n) initial) = Disconnected
       \<and> \<not> useHttpFallback (run cfg (failed_attempts n) initial)
       \<and> (case wsRef (run cfg (failed_attempts n) initial) of
             None \<Rightarrow> True | Some w \<Rightarrow> readyState w = CLOSED)
       \<and> reconnectAttempt (run cfg (failed_attempts n) initial) = min n 3
       \<and> timeoutsSet (run cfg (failed_attempts n) initial)
           = map (\<lambda>k. 3000 * (k + 1)) [0..<min n 3]
       \<and> healthChecks (run cfg (failed_attempts n) initial) = n - 3"
proof (induction n)
  case 0
  show ?case
    by (simp add: run_def failed_attempts_def initial_def snapshot_def effect_cleanup_def
        disconnect_def stopHttpFallback_def)
next
  case (Suc n)
  let ?s = "run cfg (failed_attempts n) initial"
  have c: "run cfg (failed_attempts (Suc n)) initial =
           ws_onclose (snapshot ?s)
             ((stopHttpFallback ?s)
                \<lparr> connectionState := (if 0 < reconnectAttempt ?s then Reconnecting else Connecting),
                  wsRef := Some \<lparr> readyState = CLOSED, captured = snapshot ?s \<rparr> \<rparr>)"
    unfolding run_failed_attempts_Suc using Suc by (intro failed_attempt_cycle[OF assms]) simp_all
  show ?case
  proof (cases "n < 3")
    case True
    then have m: "min (Suc n) 3 = Suc n" "min n 3 = n" "Suc n - 3 = 0" "n - 3 = 0" by simp_all
    show ?thesis
      unfolding c using Suc True
      by (simp add: m ws_onclose_def snapshot_def stopHttpFallback_def
          MAX_WS_RECONNECT_ATTEMPTS_def Let_def)
  next
    case False
    then have m: "min (Suc n) 3 = 3" "min n 3 = 3" "Suc n - 3 = Suc (n - 3)" by simp_all
    show ?thesis
      unfolding c using Suc False
      by (simp add: m ws_onclose_def startHttpFallback_def snapshot_def stopHttpFallback_def
          MAX_WS_RECONNECT_ATTEMPTS_def Let_def)
  qed
qed

text \<open>
  Claim C2. With the ceiling 3 and the base delay of 3 seconds, a close of a socket
  created at attempt count \<open>k\<close> (chat open) schedules a retry after \<open>3000 * (k + 1)\<close>
  milliseconds when \<open>k < 3\<close>, and otherwise schedules nothing and enters the liveness
  check. So \<open>n\<close> failures in a row after opening the chat have scheduled the delays
  3 s, 6 s, 9 s (the first \<open>min n 3\<close> of them), and every failure from the fourth on has
  started a liveness check instead of a retry.
\<close>

theorem reconnect_backoff_schedule:
  "(r_isOpen r \<longrightarrow>
      timeoutsSet (ws_onclose r s) =
        timeoutsSet s @ (if r_reconnectAttempt r < 3 then [3000 * (r_reconnectAttempt r + 1)] else [])
      \<and> healthChecks (ws_onclose r s) =
          (if r_reconnectAttempt r < 3 \<or> r_useHttpFallback r then healthChecks s
           else Suc (healthChecks s)))
   \<and> (GATEWAY_WS_URL cfg \<noteq> [] \<longrightarrow>
        timeoutsSet (run cfg (failed_attempts n) initial)
          = map (\<lambda>k. 3000 * (k + 1)) [0..<min n 3]
        \<and> healthChecks (run cfg (failed_attempts n) initial) = n - 3)"
  using ws_onclose_schedule[of r s] failed_attempts_state[of cfg n] by simp

theorem reconnect_backoff_schedule_witness:
  "timeoutsSet (ws_onclose \<lparr> r_connectionState = Disconnected, r_isOpen = True,
       r_reconnectAttempt = 1, r_useHttpFallback = False \<rparr> initial) = [6000]
   \<and> timeoutsSet (run example_config (failed_attempts 3) initial) = [3000, 6000, 9000]
   \<and> healthChecks (run example_config (failed_attempts 3) initial) = 0
   \<and> timeoutsSet (run example_config (failed_attempts 4) initial) = [3000, 6000, 9000]
   \<and> healthChecks (run example_config (failed_attempts 4) initial) = 1"
  using reconnect_backoff_schedule[where cfg = example_config and n = 3
      and r = "\<lparr> r_connectionState = Disconnected, r_isOpen = True,
                 r_reconnectAttempt = 1, r_useHttpFallback = False \<rparr>" and s = initial]
    reconnect_backoff_schedule[where cfg = example_config and n = 4]
  by (simp add: example_config_def upt_rec initial_def)

subsection \<open>The polling watermark\<close>

lemma addPolled_watermark: "lastMessageIdRef (foldl addPolled s items) = lastMessageIdRef s"
  by (induction items arbitrary: s) (simp_all add: addPolled_def)

lemma pollMessages_watermark:
  "lastMessageIdRef (pollMessages r cfg res s) =
     (if MC_API_URL cfg = [] \<or> \<not> r_isOpen r then lastMessageIdRef s
      else (case res of
              Threw \<Rightarrow> lastMessageIdRef s
            | Response ok items \<Rightarrow>
                (if ok \<and> items \<noteq> [] \<and> i_id (last items) \<noteq> [] then i_id (last items)
                 else lastMessageIdRef s)))"
  by (simp add: pollMessages_def addPolled_watermark split: fetched.split)

text \<open>
  Claim C3, as amended. After any run of message polls the watermark is the id of the
  last item (by position) of the most recent batch that was answered ok, was not empty
  and whose last item carries an id; it is the value it had before when there is no
  such batch, when no API base is configured or when the chat is closed. So it moves
  only to an id that was returned. It is not compared with the value it replaces.
\<close>

theorem watermark_is_last_of_latest_batch:
  "lastMessageIdRef (polls r cfg results s) =
     (if MC_API_URL cfg = [] \<or> \<not> r_isOpen r then lastMessageIdRef s
      else last (lastMessageIdRef s #
                 List.map_filter
                   (\<lambda>res. case res of
                            Threw \<Rightarrow> None
                          | Response ok items \<Rightarrow>
                              (if ok \<and> items \<noteq> [] \<and> i_id (last items) \<noteq> []
                               then Some (i_id (last items)) else None))
                   results))"
proof (induction results arbitrary: s)
  case Nil
  show ?case by (simp add: polls_def List.map_filter_simps)
next
  case (Cons res results)
  have "polls r cfg (res # results) s = polls r cfg results (pollMessages r cfg res s)"
    by (simp add: polls_def)
  then show ?case
    using Cons[of "pollMessages r cfg res s"]
    by (simp add: pollMessages_watermark List.map_filter_simps split: fetched.split)
qed

theorem watermark_is_last_of_latest_batch_witness:
  "lastMessageIdRef (polls open_render example_config
      [Response True [assistant_item ''3'' ''a'', assistant_item ''4'' ''b''], Threw,
       Response True []] initial) = ''4''"
  using watermark_is_last_of_latest_batch[of open_render example_config
      "[Response True [assistant_item ''3'' ''a'', assistant_item ''4'' ''b''], Threw,
       Response True []]" initial]
  by (simp add: open_render_def example_config_def assistant_item_def initial_def
      List.map_filter_simps)

text \<open>
  Claim C3 as stated fails: two requests leave with the same cursor, the later one is
  answered first with items 3, 4, 5 and the earlier one afterwards with item 3 alone.
  The watermark goes from 5 back to 3, which is not the greatest id received.
\<close>

theorem watermark_rewound_counterexample:
  "lastMessageIdRef (polls open_render example_config
      [Response True [assistant_item ''3'' ''a'', assistant_item ''4'' ''b'',
                      assistant_item ''5'' ''c'']] initial) = ''5''
   \<and> lastMessageIdRef (polls open_render example_config
      [Response True [assistant_item ''3'' ''a'', assistant_item ''4'' ''b'',
                      assistant_item ''5'' ''c''],
       Response True [assistant_item ''3'' ''a'']] initial) = ''3''
   \<and> (''3'' :: string) < ''5''"
  by (simp add: polls_def pollMessages_def addPolled_def dedupAppend_def assistantMessage_def
      open_render_def example_config_def assistant_item_def initial_def)

subsection \<open>Deduplication\<close>

lemma dedupAppend_count:
  "count_list (map m_id (dedupAppend m prev)) x =
     (if m_id m = x \<and> x \<notin> m_id ` set prev then 1 else count_list (map m_id prev) x)"
  by (auto simp add: dedupAppend_def list_ex_iff count_list_0_iff intro: rev_image_eqI)

lemma addPolled_count:
  "count_list (map m_id (messages (addPolled s msg))) x =
     (if i_role msg = ''assistant'' \<and> i_id msg = x \<and> x \<notin> m_id ` set (messages s) then 1
      else count_list (map m_id (messages s)) x)"
  by (simp add: addPolled_def dedupAppend_count assistantMessage_def)

lemma addPolled_ids:
  "m_id ` set (messages (addPolled s msg)) =
     m_id ` set (messages s) \<union> (if i_role msg = ''assistant'' then {i_id msg} else {})"
  by (auto simp add: addPolled_def dedupAppend_def assistantMessage_def list_ex_iff
      intro: rev_image_eqI)

lemma foldl_addPolled_count:
  "count_list (map m_id (messages (foldl addPolled s items))) x =
     (if x \<notin> m_id ` set (messages s)
         \<and> list_ex (\<lambda>i. i_role i = ''assistant'' \<and> i_id i = x) items then 1
      else count_list (map m_id (messages s)) x)"
proof (induction items arbitrary: s)
  case Nil
  show ?case by simp
next
  case (Cons msg items)
  show ?case
    using Cons[of "addPolled s msg"]
    by (auto simp add: addPolled_count addPolled_ids count_list_0_iff split: if_splits)
qed

lemma foldl_addPolled_known:
  assumes "\<not> list_ex (\<lambda>i. i_role i = ''assistant'' \<and> i_id i \<notin> m_id ` set (messages s)) items"
  shows "foldl addPolled s items = s"
  using assms
proof (induction items)
  case Nil
  show ?case by simp
next
  case (Cons msg items)
  then have "addPolled s msg = s"
    by (auto simp add: addPolled_def dedupAppend_def assistantMessage_def list_ex_iff
        intro: rev_image_eqI)
  with Cons show ?case by simp
qed

lemma foldl_addPolled_ids:
  "m_id ` set (messages (foldl addPolled s items)) =
     m_id ` set (messages s) \<union> {i_id i | i. i \<in> set items \<and> i_role i = ''assistant''}"
proof (induction items arbitrary: s)
  case Nil
  show ?case by simp
next
  case (Cons msg items)
  show ?case
    unfolding foldl_Cons Cons[of "addPolled s msg"] addPolled_ids by auto
qed

lemma addPolled_other:
  "addPolled (s\<lparr> lastMessageIdRef := w \<rparr>) msg = (addPolled s msg)\<lparr> lastMessageIdRef := w \<rparr>"
  by (simp add: addPolled_def)

lemma foldl_addPolled_other:
  "foldl addPolled (s\<lparr> lastMessageIdRef := w \<rparr>) items =
     (foldl addPolled s items)\<lparr> lastMessageIdRef := w \<rparr>"
  by (induction items arbitrary: s) (simp_all add: addPolled_other)

lemma foldl_addPolled_twice:
  "messages (foldl addPolled (foldl addPolled s items) items) = messages (foldl addPolled s items)"
proof -
  have "\<not> list_ex (\<lambda>i. i_role i = ''assistant''
            \<and> i_id i \<notin> m_id ` set (messages (foldl addPolled s items))) items"
    unfolding foldl_addPolled_ids by (auto simp add: list_ex_iff)
  then show ?thesis by (simp add: foldl_addPolled_known)
qed

text \<open>
  Claim C4, as amended. On the polling path a returned assistant item whose id is
  already in the transcript is discarded: after a poll (API base configured, chat
  open, answer ok) an id that was absent and is carried by an assistant item of the
  batch occurs exactly once, and every other id occurs as often as before. Hence the
  same answer delivered a second time leaves the transcript as it is.
\<close>

theorem polled_message_rendered_once:
  "(MC_API_URL cfg \<noteq> [] \<and> r_isOpen r \<longrightarrow>
      count_list (map m_id (messages (pollMessages r cfg (Response True items) s))) x =
        (if x \<notin> m_id ` set (messages s)
            \<and> list_ex (\<lambda>i. i_role i = ''assistant'' \<and> i_id i = x) items then 1
         else count_list (map m_id (messages s)) x))
   \<and> messages (pollMessages r cfg res (pollMessages r cfg res s)) =
       messages (pollMessages r cfg res s)"
proof -
  have a: "MC_API_URL cfg \<noteq> [] \<and> r_isOpen r \<longrightarrow>
      count_list (map m_id (messages (pollMessages r cfg (Response True items) s))) x =
        (if x \<notin> m_id ` set (messages s)
            \<and> list_ex (\<lambda>i. i_role i = ''assistant'' \<and> i_id i = x) items then 1
         else count_list (map m_id (messages s)) x)"
    by (simp add: pollMessages_def foldl_addPolled_count)
  have b: "messages (pollMessages r cfg res (pollMessages r cfg res s)) =
       messages (pollMessages r cfg res s)"
  proof (cases res)
    case Threw
    then show ?thesis by (simp add: pollMessages_def)
  next
    case (Response ok its)
    then show ?thesis
      by (simp add: pollMessages_def foldl_addPolled_other foldl_addPolled_twice)
  qed
  from a b show ?thesis by simp
qed

theorem polled_message_rendered_once_witness:
  "map m_id (messages (polls open_render example_config
       [Response True [assistant_item ''42'' ''hi''], Response True [assistant_item ''42'' ''hi'']]
       initial)) = [''42'']"
  using polled_message_rendered_once[of example_config open_render
      "[assistant_item ''42'' ''hi'']" initial "''42''" "Response True [assistant_item ''42'' ''hi'']"]
  by (simp add: polls_def pollMessages_def addPolled_def dedupAppend_def assistantMessage_def
      open_render_def example_config_def assistant_item_def initial_def)

text \<open>
  Claim C4 as stated fails on the realtime path, which never looks at identifiers and
  gives every frame the clock reading as its id. A message polled under id 1000 and
  then delivered by the socket at clock reading 1000 is rendered twice under that id;
  and a message polled under id 42 whose frame also says 42 is rendered a second time,
  under the id 7 of the clock.
\<close>

theorem realtime_duplicate_counterexample:
  "map m_id (messages
      (handleWsMessage (\<lambda>v. []) 1000
         (JObj [(''type'', JStr ''message''), (''id'', JStr ''1000''), (''content'', JStr ''hi'')])
         (pollMessages open_render example_config
            (Response True [assistant_item ''1000'' ''hi'']) initial)))
     = [''1000'', ''1000'']
   \<and> map (\<lambda>m. (m_id m, m_content m)) (messages
      (handleWsMessage (\<lambda>v. []) 7
         (JObj [(''type'', JStr ''message''), (''id'', JStr ''42''), (''content'', JStr ''hi'')])
         (pollMessages open_render example_config
            (Response True [assistant_item ''42'' ''hi'']) initial)))
     = [(''42'', ''hi''), (''7'', ''hi'')]"
  by (simp add: pollMessages_def addPolled_def dedupAppend_def assistantMessage_def
      open_render_def example_config_def assistant_item_def initial_def handleWsMessage_def
      appendMessage_def localMessage_def String_of_def toString.simps digit_def)

subsection \<open>The two transports together\<close>

lemma socket_opens_while_polling:
  assumes "GATEWAY_WS_URL cfg \<noteq> []" and "MC_API_URL cfg \<noteq> []"
  shows "ws_is_open (run cfg (failed_attempts 4 @
            [EffectRuns True, HealthAnswered (Response True ()), SocketOpens]) initial)
       \<and> pollIntervalRef (run cfg (failed_attempts 4 @
            [EffectRuns True, HealthAnswered (Response True ()), SocketOpens]) initial)
       \<and> messagePollIntervalRef (run cfg (failed_attempts 4 @
            [EffectRuns True, HealthAnswered (Response True ()), SocketOpens]) initial)
       \<and> connectionState (run cfg (failed_attempts 4 @
            [EffectRuns True, HealthAnswered (Response True ()), SocketOpens]) initial) = Connected"
proof -
  let ?s = "run cfg (failed_attempts 4) initial"
  have st: "isOpen ?s" "connectionState ?s = Disconnected" "\<not> useHttpFallback ?s"
    "case wsRef ?s of None \<Rightarrow> True | Some w \<Rightarrow> readyState w = CLOSED"
    "healthChecks ?s = 1"
    using failed_attempts_state[OF assms(1), of 4] by simp_all
  have e: "step cfg ?s (EffectRuns True) =
          (stopHttpFallback ?s)
            \<lparr> connectionState := (if 0 < reconnectAttempt ?s then Reconnecting else Connecting),
              wsRef := Some \<lparr> readyState = CONNECTING, captured = snapshot ?s \<rparr> \<rparr>"
    using assms(1) st
    by (auto simp add: effect_connect_def connect_def snapshot_def Let_def split: option.splits)
  have r: "run cfg (failed_attempts 4 @
            [EffectRuns True, HealthAnswered (Response True ()), SocketOpens]) initial =
          step cfg (step cfg (step cfg ?s (EffectRuns True))
            (HealthAnswered (Response True ()))) SocketOpens"
    by (simp add: run_def)
  have h: "step cfg (step cfg ?s (EffectRuns True)) (HealthAnswered (Response True ())) =
          ?s\<lparr> healthChecks := 0, useHttpFallback := True, connectionState := PollMode,
              pollIntervalRef := True, messagePollIntervalRef := True,
              wsRef := Some \<lparr> readyState = CONNECTING, captured = snapshot ?s \<rparr> \<rparr>"
    unfolding e using st(5) assms(2)
    by (simp add: stopHttpFallback_def startHttpFallback_resume_def checkHealth_def)
  show ?thesis
    unfolding r h by (simp add: ws_onopen_def ws_is_open_def Let_def split: option.split)
qed

text \<open>
  Claim C1 does not hold of the code. The gateway refuses four connections, so the
  fourth close starts a liveness probe; the state is \<^verbatim>\<open>disconnected\<close>, so the effect
  connects a fifth time while the probe is awaited; the probe succeeds and starts both
  polling timers; the fifth socket opens. \<^verbatim>\<open>ws.onopen\<close> resets the flag
  \<^verbatim>\<open>useHttpFallback\<close> but clears no timer, so the socket is open while both timers run.
\<close>

theorem transports_overlap_after_late_probe:
  "ws_is_open (run example_config (failed_attempts 4 @
      [EffectRuns True, HealthAnswered (Response True ()), SocketOpens]) initial)
   \<and> pollIntervalRef (run example_config (failed_attempts 4 @
      [EffectRuns True, HealthAnswered (Response True ()), SocketOpens]) initial)
   \<and> messagePollIntervalRef (run example_config (failed_attempts 4 @
      [EffectRuns True, HealthAnswered (Response True ()), SocketOpens]) initial)"
  using socket_opens_while_polling[of example_config] by (simp add: example_config_def)

theorem transports_overlap_after_late_probe_witness:
  "ws_is_open (run example_config
      [ChatOpened, EffectRuns True, SocketCloses, EffectRuns True, SocketCloses,
       EffectRuns True, SocketCloses, EffectRuns True, SocketCloses,
       EffectRuns True, HealthAnswered (Response True ()), SocketOpens] initial)
   \<and> pollIntervalRef (run example_config
      [ChatOpened, EffectRuns True, SocketCloses, EffectRuns True, SocketCloses,
       EffectRuns True, SocketCloses, EffectRuns True, SocketCloses,
       EffectRuns True, HealthAnswered (Response True ()), SocketOpens] initial)"
proof -
  have "failed_attempts 4 @ [EffectRuns True, HealthAnswered (Response True ()), SocketOpens] =
      [ChatOpened, EffectRuns True, SocketCloses, EffectRuns True, SocketCloses,
       EffectRuns True, SocketCloses, EffectRuns True, SocketCloses,
       EffectRuns True, HealthAnswered (Response True ()), SocketOpens]"
    by (simp add: failed_attempts_def numeral_eq_Suc)
  then show ?thesis using transports_overlap_after_late_probe by simp
qed

end
